theory Spec2Isabelle
  imports Complex_Main
begin

section \<open>Values of the JavaScript runtime\<close>

text \<open>
  The repository is TypeScript: a Deepgram WebSocket client (\<^verbatim>\<open>DeepgramService\<close>), a
  microphone wrapper (\<^verbatim>\<open>AudioCaptureService\<close>) and the React hook \<^verbatim>\<open>useVoiceToText\<close>
  that coordinates both. The decoder of the client works on whatever \<^verbatim>\<open>JSON.parse\<close>
  returns, so parsed JSON is a datatype of its own. A JSON number is carried as a
  rational: the code only tests numbers for being zero and for being positive.
  An object is the list of its own properties, read with \<open>map_of\<close>.
\<close>

datatype json =
    JNull
  | JBool bool
  | JNum rat
  | JStr string
  | JArr "json list"
  | JObj "(string \<times> json) list"

text \<open>A JavaScript value read from parsed JSON: \<open>None\<close> is \<^verbatim>\<open>undefined\<close>.\<close>

type_synonym jsval = "json option"

text \<open>
  A thrown value, as far as the \<^verbatim>\<open>instanceof\<close> tests of the code tell them apart:
  a \<^verbatim>\<open>DOMException\<close> with its name and message, any other \<^verbatim>\<open>Error\<close> with its
  message, or a value that is no \<^verbatim>\<open>Error\<close> at all.
\<close>

datatype thrown =
    DOMException string string
  | JsError string
  | NonError

definition TypeError :: thrown where
  "TypeError = JsError ''TypeError''"

text \<open>\<^verbatim>\<open>e instanceof Error ? e.message : d\<close> (a \<^verbatim>\<open>DOMException\<close> is an \<^verbatim>\<open>Error\<close>).\<close>

definition message_or :: "string \<Rightarrow> thrown \<Rightarrow> string" where
  "message_or d e = (case e of DOMException n m \<Rightarrow> m | JsError m \<Rightarrow> m | NonError \<Rightarrow> d)"

definition and_then :: "thrown + 'a \<Rightarrow> ('a \<Rightarrow> thrown + 'b) \<Rightarrow> thrown + 'b" where
  "and_then m f = (case m of Inl e \<Rightarrow> Inl e | Inr x \<Rightarrow> f x)"

text \<open>
  Reading a property of a non-null JSON value, for the keys the decoder reads
  (\<^verbatim>\<open>type\<close>, \<^verbatim>\<open>channel\<close>, \<^verbatim>\<open>alternatives\<close>, \<^verbatim>\<open>length\<close>, \<^verbatim>\<open>0\<close>, \<^verbatim>\<open>transcript\<close>,
  \<^verbatim>\<open>is_final\<close>, \<^verbatim>\<open>confidence\<close>, \<^verbatim>\<open>words\<close>, \<^verbatim>\<open>message\<close>): an object gives its own
  property, an array or a string gives its length and its first element, and
  everything else is \<^verbatim>\<open>undefined\<close>.
\<close>

fun get :: "json \<Rightarrow> string \<Rightarrow> jsval" where
  "get (JObj kvs) k = map_of kvs k"
| "get (JArr xs) k =
     (if k = ''length'' then Some (JNum (of_nat (length xs)))
      else if k = ''0'' then (case xs of [] \<Rightarrow> None | x # _ \<Rightarrow> Some x)
      else None)"
| "get (JStr s) k =
     (if k = ''length'' then Some (JNum (of_nat (length s)))
      else if k = ''0'' then (case s of [] \<Rightarrow> None | c # _ \<Rightarrow> Some (JStr [c]))
      else None)"
| "get (JBool b) k = None"
| "get (JNum n) k = None"
| "get JNull k = None"

text \<open>\<^verbatim>\<open>v.k\<close>: a TypeError on \<^verbatim>\<open>undefined\<close> and on \<^verbatim>\<open>null\<close>.\<close>

definition read_prop :: "jsval \<Rightarrow> string \<Rightarrow> thrown + jsval" where
  "read_prop v k =
     (case v of
        None \<Rightarrow> Inl TypeError
      | Some JNull \<Rightarrow> Inl TypeError
      | Some w \<Rightarrow> Inr (get w k))"

text \<open>\<^verbatim>\<open>v?.k\<close>: \<^verbatim>\<open>undefined\<close> on \<^verbatim>\<open>undefined\<close> and on \<^verbatim>\<open>null\<close>.\<close>

definition read_opt :: "jsval \<Rightarrow> string \<Rightarrow> jsval" where
  "read_opt v k =
     (case v of
        None \<Rightarrow> None
      | Some JNull \<Rightarrow> None
      | Some w \<Rightarrow> get w k)"

fun truthy :: "jsval \<Rightarrow> bool" where
  "truthy None = False"
| "truthy (Some JNull) = False"
| "truthy (Some (JBool b)) = b"
| "truthy (Some (JNum n)) = (n \<noteq> 0)"
| "truthy (Some (JStr s)) = (s \<noteq> [])"
| "truthy (Some (JArr xs)) = True"
| "truthy (Some (JObj kvs)) = True"

text \<open>\<^verbatim>\<open>v || d\<close> for a default \<open>d\<close> that is a JSON value.\<close>

definition or_else :: "jsval \<Rightarrow> json \<Rightarrow> json" where
  "or_else v d = (case v of None \<Rightarrow> d | Some w \<Rightarrow> if truthy (Some w) then w else d)"

text \<open>
  What the code takes from the platform, as parameters. \<^verbatim>\<open>JSON.parse\<close> answers
  \<open>None\<close> where it throws a SyntaxError. The two coercions of ECMAScript that the
  decoder can reach only on frames outside the wire format are parameters as well:
  \<^verbatim>\<open>x > 0\<close> for an \<open>x\<close> that is a string, an array or an object, and the string
  conversion that \<^verbatim>\<open>new Error(x)\<close> applies to an \<open>x\<close> that is no string. Either
  may throw. The \<^verbatim>\<open>WebSocket\<close> constructor answers the value it throws, if it throws.
  For the microphone: whether \<^verbatim>\<open>navigator.mediaDevices\<close> and its \<^verbatim>\<open>getUserMedia\<close>
  exist, how the awaited \<^verbatim>\<open>getUserMedia\<close> and \<^verbatim>\<open>new AudioContext\<close> end (the value
  thrown, or the handle of the new stream or context), how the permission query
  ends, and whether constructing or starting a \<^verbatim>\<open>MediaRecorder\<close> throws.
\<close>

record ws_request =
  endpoint :: string
  query :: "(string \<times> string) list"
  protocols :: "string list"

datatype PermissionState = granted | denied | prompt

record runtime =
  JSON_parse :: "string \<Rightarrow> json option"
  ToNumber_gt0 :: "json \<Rightarrow> thrown + bool"
  ToString :: "json \<Rightarrow> thrown + string"
  WebSocket_throws :: "ws_request \<Rightarrow> thrown option"
  has_mediaDevices :: bool
  has_getUserMedia :: bool
  getUserMedia :: "thrown + nat"
  new_AudioContext :: "thrown + nat"
  permissions_query :: "thrown + PermissionState"
  new_MediaRecorder_throws :: bool
  MediaRecorder_start_throws :: "thrown option"

text \<open>\<^verbatim>\<open>v > 0\<close>.\<close>

definition gt_zero :: "runtime \<Rightarrow> jsval \<Rightarrow> thrown + bool" where
  "gt_zero rt v =
     (case v of
        None \<Rightarrow> Inr False
      | Some JNull \<Rightarrow> Inr False
      | Some (JBool b) \<Rightarrow> Inr b
      | Some (JNum n) \<Rightarrow> Inr (0 < n)
      | Some w \<Rightarrow> ToNumber_gt0 rt w)"

text \<open>The message of \<^verbatim>\<open>new Error(v)\<close>.\<close>

definition error_message :: "runtime \<Rightarrow> json \<Rightarrow> thrown + string" where
  "error_message rt v = (case v of JStr s \<Rightarrow> Inr s | w \<Rightarrow> ToString rt w)"


section \<open>DeepgramService: the transcription channel\<close>

record DeepgramConfig =
  apiKey :: string
  language :: string
  model :: string
  punctuate :: bool
  interimResults :: bool

text \<open>
  The object literal that \<^verbatim>\<open>handleMessage\<close> hands to \<^verbatim>\<open>onTranscript\<close>. Its fields hold
  what the frame held: TypeScript's types are erased when the decoder runs.
\<close>

record decoded_result =
  transcript_value :: json
  isFinal_value :: json
  confidence_value :: json
  words_value :: jsval

text \<open>The interface \<^verbatim>\<open>TranscriptionResult\<close> as TypeScript declares it.\<close>

record TranscriptionResult =
  transcript :: string
  isFinal :: bool
  confidence :: rat
  words :: jsval

text \<open>A decoded result is a \<^verbatim>\<open>TranscriptionResult\<close> when its fields have the declared types.\<close>

definition as_TranscriptionResult :: "decoded_result \<Rightarrow> TranscriptionResult option" where
  "as_TranscriptionResult r =
     (case (transcript_value r, isFinal_value r, confidence_value r) of
        (JStr t, JBool f, JNum c) \<Rightarrow>
          Some \<lparr>transcript = t, isFinal = f, confidence = c, words = words_value r\<rparr>
      | _ \<Rightarrow> None)"

text \<open>
  A call of one of the four handlers of \<^verbatim>\<open>DeepgramEventHandler\<close>. The decoder
  passes a \<open>decoded_result\<close>; the hook's handlers are written against
  \<^verbatim>\<open>TranscriptionResult\<close>. The type of the result is therefore a parameter.
  The handlers of the hook only queue updates of its state: they do not throw.
\<close>

datatype 'r handler_call =
    OnOpen
  | OnTranscript 'r
  | OnError string
  | OnClose

text \<open>
  What a method of the channel does besides changing its fields: warnings and errors
  on the console, calls of the registered handlers, and calls on the socket.
  (\<^verbatim>\<open>console.log\<close> lines are left out.)
\<close>

datatype 'r effect =
    ConsoleWarn string
  | ConsoleError string
  | Invoke "'r handler_call"
  | SocketNew ws_request
  | SocketSend json
  | SocketClose

fun calls :: "'r effect list \<Rightarrow> 'r handler_call list" where
  "calls [] = []"
| "calls (Invoke c # es) = c # calls es"
| "calls (e # es) = calls es"

datatype ready_state = CONNECTING | OPEN | CLOSING | CLOSED

text \<open>
  A socket as the channel sees it: the request it was constructed with, and the
  \<^verbatim>\<open>readyState\<close> the browser reports when a method reads it.
\<close>

record WebSocket =
  request :: ws_request
  readyState :: ready_state

record 'h DeepgramService =
  socket :: "WebSocket option"
  config :: DeepgramConfig
  handlers :: "'h option"
  isConnected :: bool

text \<open>\<^verbatim>\<open>new DeepgramService({ apiKey })\<close>, the only way the repository constructs one.\<close>

definition createDeepgramService :: "string \<Rightarrow> 'h DeepgramService" where
  "createDeepgramService key =
     \<lparr>socket = None,
      config = \<lparr>apiKey = key, language = ''en'', model = ''nova-2'',
                punctuate = True, interimResults = True\<rparr>,
      handlers = None,
      isConnected = False\<rparr>"

definition String_of_bool :: "bool \<Rightarrow> string" where
  "String_of_bool b = (if b then ''true'' else ''false'')"

definition ws_request_of :: "DeepgramConfig \<Rightarrow> ws_request" where
  "ws_request_of c =
     \<lparr>endpoint = ''wss://api.deepgram.com/v1/listen'',
      query = [(''model'', model c), (''language'', language c),
               (''punctuate'', String_of_bool (punctuate c)),
               (''interim_results'', String_of_bool (interimResults c))],
      protocols = [''token'', apiKey c]\<rparr>"

definition connect ::
  "runtime \<Rightarrow> 'h \<Rightarrow> 'h DeepgramService \<Rightarrow> 'h DeepgramService \<times> 'r effect list" where
  "connect rt h this =
     (if isConnected this then (this, [ConsoleWarn ''Already connected to Deepgram''])
      else
        let this1 = this\<lparr>handlers := Some h\<rparr>;
            req = ws_request_of (config this1)
        in case WebSocket_throws rt req of
             None \<Rightarrow>
               (this1\<lparr>socket := Some \<lparr>request = req, readyState = CONNECTING\<rparr>\<rparr>,
                [SocketNew req])
           | Some error \<Rightarrow>
               (this1,
                [Invoke (OnError (message_or ''Failed to connect to Deepgram'' error))]))"

text \<open>The four socket callbacks that \<^verbatim>\<open>connect\<close> installs; \<^verbatim>\<open>onmessage\<close> is \<open>handleMessage\<close> below.\<close>

definition socket_onopen :: "'h DeepgramService \<Rightarrow> 'h DeepgramService \<times> 'r effect list" where
  "socket_onopen this =
     (this\<lparr>isConnected := True\<rparr>, if handlers this = None then [] else [Invoke OnOpen])"

definition socket_onerror :: "'h DeepgramService \<Rightarrow> 'h DeepgramService \<times> 'r effect list" where
  "socket_onerror this =
     (this,
      ConsoleError ''Deepgram WebSocket error:'' #
      (if handlers this = None then [] else [Invoke (OnError ''WebSocket connection error'')]))"

definition socket_onclose :: "'h DeepgramService \<Rightarrow> 'h DeepgramService \<times> 'r effect list" where
  "socket_onclose this =
     (this\<lparr>isConnected := False\<rparr>, if handlers this = None then [] else [Invoke OnClose])"

text \<open>
  An event of the held socket as a whole: the browser sets the \<^verbatim>\<open>readyState\<close> of the
  socket, then runs the callback.
\<close>

definition socket_opens :: "'h DeepgramService \<Rightarrow> 'h DeepgramService \<times> 'r effect list" where
  "socket_opens this =
     socket_onopen
       (this\<lparr>socket := map_option (\<lambda>ws. ws\<lparr>readyState := OPEN\<rparr>) (socket this)\<rparr>)"

definition socket_closes :: "'h DeepgramService \<Rightarrow> 'h DeepgramService \<times> 'r effect list" where
  "socket_closes this =
     socket_onclose
       (this\<lparr>socket := map_option (\<lambda>ws. ws\<lparr>readyState := CLOSED\<rparr>) (socket this)\<rparr>)"

definition disconnect :: "'h DeepgramService \<Rightarrow> 'h DeepgramService \<times> 'r effect list" where
  "disconnect this =
     (case socket this of
        Some ws \<Rightarrow>
          (this\<lparr>socket := None, isConnected := False\<rparr>,
           (if readyState ws = OPEN then [SocketSend (JObj [(''type'', JStr ''CloseStream'')])]
            else []) @ [SocketClose])
      | None \<Rightarrow> (this\<lparr>isConnected := False\<rparr>, []))"

text \<open>
  The body of the \<^verbatim>\<open>try\<close> in \<^verbatim>\<open>handleMessage\<close>, after \<^verbatim>\<open>JSON.parse\<close>: first the
  \<^verbatim>\<open>if\<close> for transcription results, then the \<^verbatim>\<open>if\<close> for errors. Each answers the
  effects it had, or the value it threw before it had any. The frame is the text
  given to \<^verbatim>\<open>JSON.parse\<close>; a binary frame is a text that does not parse.
\<close>

definition handle_results ::
  "runtime \<Rightarrow> 'h DeepgramService \<Rightarrow> json \<Rightarrow> thrown + decoded_result effect list" where
  "handle_results rt this data =
     and_then (read_prop (Some data) ''type'') (\<lambda>ty.
       if ty \<noteq> Some (JStr ''Results'') then Inr []
       else
         and_then (read_prop (Some data) ''channel'') (\<lambda>ch.
         and_then (gt_zero rt (read_opt (read_opt ch ''alternatives'') ''length'')) (\<lambda>positive.
           if \<not> positive then Inr []
           else
             and_then (read_prop (Some data) ''channel'') (\<lambda>ch.
             and_then (read_prop ch ''alternatives'') (\<lambda>alts.
             and_then (read_prop alts ''0'') (\<lambda>alternative.
             and_then (read_prop alternative ''transcript'') (\<lambda>t.
             and_then (read_prop (Some data) ''is_final'') (\<lambda>f.
             and_then (read_prop alternative ''confidence'') (\<lambda>c.
             and_then (read_prop alternative ''words'') (\<lambda>w.
               let result =
                     \<lparr>transcript_value = or_else t (JStr ''''),
                      isFinal_value = or_else f (JBool False),
                      confidence_value = or_else c (JNum 0),
                      words_value = w\<rparr>
               in Inr (if truthy (Some (transcript_value result)) \<and> handlers this \<noteq> None
                       then [Invoke (OnTranscript result)]
                       else [])))))))))))"

definition handle_error ::
  "runtime \<Rightarrow> 'h DeepgramService \<Rightarrow> json \<Rightarrow> thrown + decoded_result effect list" where
  "handle_error rt this data =
     and_then (read_prop (Some data) ''type'') (\<lambda>ty.
       if ty \<noteq> Some (JStr ''Error'') then Inr []
       else if handlers this = None then Inr []
       else
         and_then (read_prop (Some data) ''message'') (\<lambda>m.
         and_then (error_message rt (or_else m (JStr ''Deepgram error''))) (\<lambda>msg.
           Inr [Invoke (OnError msg)])))"

definition handleMessage ::
  "runtime \<Rightarrow> 'h DeepgramService \<Rightarrow> string \<Rightarrow> decoded_result effect list" where
  "handleMessage rt this frame =
     (case JSON_parse rt frame of
        None \<Rightarrow> [ConsoleError ''Failed to parse Deepgram message:'']
      | Some data \<Rightarrow>
          (case handle_results rt this data of
             Inl e \<Rightarrow> [ConsoleError ''Failed to parse Deepgram message:'']
           | Inr es1 \<Rightarrow>
               (case handle_error rt this data of
                  Inl e \<Rightarrow> es1 @ [ConsoleError ''Failed to parse Deepgram message:'']
                | Inr es2 \<Rightarrow> es1 @ es2)))"


section \<open>AudioCaptureService: the audio source\<close>

datatype recording_state = inactive | recording | paused

text \<open>A \<^verbatim>\<open>Blob\<close>: its size and its type.\<close>

type_synonym Blob = "nat \<times> string"

record 'cb AudioCaptureService =
  mediaStream :: "nat option"
  audioContext :: "nat option"
  mediaRecorder :: "recording_state option"
  audioChunks :: "Blob list"
  onDataCallback :: "'cb option"

definition new_AudioCaptureService :: "'cb AudioCaptureService" where
  "new_AudioCaptureService =
     \<lparr>mediaStream = None, audioContext = None, mediaRecorder = None,
      audioChunks = [], onDataCallback = None\<rparr>"

definition checkMediaDevicesSupport :: "runtime \<Rightarrow> thrown option" where
  "checkMediaDevicesSupport rt =
     (if \<not> has_mediaDevices rt then
        Some (JsError (''Media devices not supported. This may be a permissions issue on macOS. '' @
          ''Please ensure microphone access is granted in System Preferences > Security & Privacy > Privacy > Microphone.''))
      else if \<not> has_getUserMedia rt then
        Some (JsError ''getUserMedia not supported in this environment.'')
      else None)"

definition handlePermissionError :: "thrown \<Rightarrow> thrown" where
  "handlePermissionError error =
     (case error of
        DOMException name msg \<Rightarrow>
          (if name = ''NotAllowedError'' then
             JsError ''Microphone permission denied. Please allow microphone access in your system settings.''
           else if name = ''NotFoundError'' then
             JsError ''No microphone found. Please connect a microphone and try again.''
           else if name = ''NotReadableError'' then
             JsError ''Microphone is in use by another application. Please close other apps using the microphone.''
           else JsError (''Microphone error: '' @ msg))
      | JsError msg \<Rightarrow> JsError msg
      | NonError \<Rightarrow> JsError ''Unknown audio capture error'')"

text \<open>
  \<^verbatim>\<open>initialize()\<close>: the value the promise resolves to, or the error it rejects with,
  and the service afterwards.
\<close>

definition AudioCaptureService_initialize ::
  "runtime \<Rightarrow> 'cb AudioCaptureService \<Rightarrow> (thrown + bool) \<times> 'cb AudioCaptureService" where
  "AudioCaptureService_initialize rt this =
     (case checkMediaDevicesSupport rt of
        Some e \<Rightarrow> (Inl (handlePermissionError e), this)
      | None \<Rightarrow>
          (case getUserMedia rt of
             Inl e \<Rightarrow> (Inl (handlePermissionError e), this)
           | Inr stream \<Rightarrow>
               (let this1 = this\<lparr>mediaStream := Some stream\<rparr>
                in case new_AudioContext rt of
                     Inl e \<Rightarrow> (Inl (handlePermissionError e), this1)
                   | Inr ctx \<Rightarrow> (Inr True, this1\<lparr>audioContext := Some ctx\<rparr>))))"

definition AudioCaptureService_startRecording ::
  "runtime \<Rightarrow> 'cb \<Rightarrow> 'cb AudioCaptureService \<Rightarrow> thrown option \<times> 'cb AudioCaptureService" where
  "AudioCaptureService_startRecording rt onData this =
     (case mediaStream this of
        None \<Rightarrow> (Some (JsError ''Audio capture not initialized. Call initialize() first.''), this)
      | Some stream \<Rightarrow>
          (let this1 = this\<lparr>onDataCallback := Some onData, audioChunks := []\<rparr>
           in if new_MediaRecorder_throws rt then
                (Some (JsError ''Audio recording is not supported in this browser/environment''), this1)
              else
                (case MediaRecorder_start_throws rt of
                   Some e \<Rightarrow> (Some e, this1\<lparr>mediaRecorder := Some inactive\<rparr>)
                 | None \<Rightarrow> (None, this1\<lparr>mediaRecorder := Some recording\<rparr>))))"

text \<open>\<^verbatim>\<open>stopRecording()\<close>: the blob of the session, if any chunk was captured.\<close>

definition AudioCaptureService_stopRecording ::
  "'cb AudioCaptureService \<Rightarrow> Blob option \<times> 'cb AudioCaptureService" where
  "AudioCaptureService_stopRecording this =
     (let this1 =
            (case mediaRecorder this of
               Some st \<Rightarrow> if st \<noteq> inactive then this\<lparr>mediaRecorder := Some inactive\<rparr> else this
             | None \<Rightarrow> this)
      in if audioChunks this1 \<noteq> [] then
           (Some (sum_list (map fst (audioChunks this1)), ''audio/webm''), this1\<lparr>audioChunks := []\<rparr>)
         else (None, this1))"

definition checkPermission :: "runtime \<Rightarrow> PermissionState" where
  "checkPermission rt = (case permissions_query rt of Inl e \<Rightarrow> prompt | Inr st \<Rightarrow> st)"


section \<open>useVoiceToText: the session coordinator\<close>

record VoiceToTextState =
  isRecording :: bool
  isConnected :: bool
  isInitialized :: bool
  transcript :: string
  interimTranscript :: string
  error :: "string option"
  permissionStatus :: "PermissionState option"

text \<open>
  One instance of the hook: the state of \<^verbatim>\<open>useState\<close> and the two refs. An updater
  passed to \<^verbatim>\<open>setState\<close> is applied where it is queued; the API key is the argument
  of the render whose callbacks run.
\<close>

record Session =
  state :: VoiceToTextState
  audioServiceRef :: "unit AudioCaptureService option"
  deepgramServiceRef :: "unit DeepgramService option"

definition initial_Session :: Session where
  "initial_Session =
     \<lparr>state = \<lparr>isRecording = False, isConnected = False, isInitialized = False,
               transcript = '''', interimTranscript = '''', error = None,
               permissionStatus = None\<rparr>,
      audioServiceRef = None,
      deepgramServiceRef = None\<rparr>"

text \<open>The updaters of the four handlers that \<^verbatim>\<open>startRecording\<close> passes to \<^verbatim>\<open>connect\<close>.\<close>

definition onTranscript :: "TranscriptionResult \<Rightarrow> VoiceToTextState \<Rightarrow> VoiceToTextState" where
  "onTranscript result prev =
     (if isFinal result then
        prev\<lparr>transcript :=
               (if transcript prev \<noteq> [] then
                  transcript prev @ '' '' @ TranscriptionResult.transcript result
                else TranscriptionResult.transcript result),
             interimTranscript := ''''\<rparr>
      else prev\<lparr>interimTranscript := TranscriptionResult.transcript result\<rparr>)"

definition onError :: "string \<Rightarrow> VoiceToTextState \<Rightarrow> VoiceToTextState" where
  "onError msg prev = prev\<lparr>error := Some msg, isRecording := False, isConnected := False\<rparr>"

definition onClose :: "VoiceToTextState \<Rightarrow> VoiceToTextState" where
  "onClose prev = prev\<lparr>isConnected := False, isRecording := False\<rparr>"

text \<open>
  \<^verbatim>\<open>onOpen\<close> starts the capture between its two updates; when that throws, the
  second update is not reached.
\<close>

definition onOpen :: "runtime \<Rightarrow> Session \<Rightarrow> Session" where
  "onOpen rt sess =
     (let st1 = (state sess)\<lparr>isConnected := True\<rparr>
      in case audioServiceRef sess of
           None \<Rightarrow> sess\<lparr>state := st1\<lparr>isRecording := True\<rparr>\<rparr>
         | Some audio \<Rightarrow>
             (case AudioCaptureService_startRecording rt () audio of
                (Some e, audio') \<Rightarrow> sess\<lparr>state := st1, audioServiceRef := Some audio'\<rparr>
              | (None, audio') \<Rightarrow>
                  sess\<lparr>state := st1\<lparr>isRecording := True\<rparr>, audioServiceRef := Some audio'\<rparr>))"

fun deliver :: "runtime \<Rightarrow> TranscriptionResult handler_call \<Rightarrow> Session \<Rightarrow> Session" where
  "deliver rt OnOpen sess = onOpen rt sess"
| "deliver rt (OnTranscript result) sess = sess\<lparr>state := onTranscript result (state sess)\<rparr>"
| "deliver rt (OnError msg) sess = sess\<lparr>state := onError msg (state sess)\<rparr>"
| "deliver rt OnClose sess = sess\<lparr>state := onClose (state sess)\<rparr>"

text \<open>A sequence of handler calls, in the order of arrival.\<close>

fun deliver_all :: "runtime \<Rightarrow> TranscriptionResult handler_call list \<Rightarrow> Session \<Rightarrow> Session" where
  "deliver_all rt [] sess = sess"
| "deliver_all rt (c # cs) sess = deliver_all rt cs (deliver rt c sess)"

text \<open>
  An event of the socket of the hook's channel: the channel's callback runs, and the
  handler calls it makes reach the hook.
\<close>

definition channel_event ::
  "runtime \<Rightarrow> (unit DeepgramService \<Rightarrow> unit DeepgramService \<times> TranscriptionResult effect list) \<Rightarrow>
   Session \<Rightarrow> Session" where
  "channel_event rt event sess =
     (case deepgramServiceRef sess of
        None \<Rightarrow> sess
      | Some d \<Rightarrow>
          (case event d of
             (d', es) \<Rightarrow> deliver_all rt (calls es) (sess\<lparr>deepgramServiceRef := Some d'\<rparr>)))"

text \<open>
  A call as the decoder makes it, seen at the type the handlers are written against:
  defined when the decoded result has the declared field types.
\<close>

fun typed_call :: "decoded_result handler_call \<Rightarrow> TranscriptionResult handler_call option" where
  "typed_call OnOpen = Some OnOpen"
| "typed_call (OnTranscript r) = map_option OnTranscript (as_TranscriptionResult r)"
| "typed_call (OnError msg) = Some (OnError msg)"
| "typed_call OnClose = Some OnClose"

text \<open>The actions of the hook.\<close>

definition initialize :: "runtime \<Rightarrow> string \<Rightarrow> Session \<Rightarrow> Session" where
  "initialize rt key sess =
     (let st1 = (state sess)\<lparr>error := None\<rparr>;
          st2 = st1\<lparr>permissionStatus := Some (checkPermission rt)\<rparr>
      in case AudioCaptureService_initialize rt new_AudioCaptureService of
           (Inl e, audioService) \<Rightarrow>
             sess\<lparr>state := st2\<lparr>error := Some (message_or ''Failed to initialize'' e),
                                isInitialized := False\<rparr>\<rparr>
         | (Inr ok, audioService) \<Rightarrow>
             sess\<lparr>audioServiceRef := Some audioService,
                  deepgramServiceRef :=
                    (if key \<noteq> [] then Some (createDeepgramService key)
                     else deepgramServiceRef sess),
                  state := st2\<lparr>isInitialized := True, permissionStatus := Some granted\<rparr>\<rparr>)"

text \<open>The effect that runs when the API key or \<^verbatim>\<open>isInitialized\<close> has changed.\<close>

definition apiKey_effect :: "string \<Rightarrow> Session \<Rightarrow> Session" where
  "apiKey_effect key sess =
     (if key \<noteq> [] \<and> isInitialized (state sess) then
        sess\<lparr>deepgramServiceRef := Some (createDeepgramService key)\<rparr>
      else sess)"

definition startRecording ::
  "runtime \<Rightarrow> string \<Rightarrow> Session \<Rightarrow> Session \<times> TranscriptionResult effect list" where
  "startRecording rt key sess =
     (case (audioServiceRef sess, deepgramServiceRef sess) of
        (Some audio, Some deepgram) \<Rightarrow>
          (if key = [] then
             (sess\<lparr>state := (state sess)\<lparr>error := Some ''Deepgram API key is required.''\<rparr>\<rparr>, [])
           else
             (let sess1 = sess\<lparr>state := (state sess)\<lparr>error := None, interimTranscript := ''''\<rparr>\<rparr>;
                  (deepgram', effects) = connect rt () deepgram;
                  sess2 = sess1\<lparr>deepgramServiceRef := Some deepgram'\<rparr>
              in (deliver_all rt (calls effects) sess2, effects)))
      | _ \<Rightarrow>
          (sess\<lparr>state := (state sess)
                  \<lparr>error := Some ''Services not initialized. Please initialize first.''\<rparr>\<rparr>, []))"

definition stopRecording :: "Session \<Rightarrow> Session \<times> TranscriptionResult effect list" where
  "stopRecording sess =
     (let audio' = map_option (\<lambda>a. snd (AudioCaptureService_stopRecording a)) (audioServiceRef sess);
          (deepgram', effects) =
            (case deepgramServiceRef sess of
               None \<Rightarrow> (None, [])
             | Some d \<Rightarrow> (case disconnect d of (d', es) \<Rightarrow> (Some d', es)))
      in (sess\<lparr>audioServiceRef := audio',
               deepgramServiceRef := deepgram',
               state := (state sess)\<lparr>isRecording := False, isConnected := False,
                                     interimTranscript := ''''\<rparr>\<rparr>,
          effects))"

definition clearTranscript :: "VoiceToTextState \<Rightarrow> VoiceToTextState" where
  "clearTranscript prev = prev\<lparr>transcript := '''', interimTranscript := ''''\<rparr>"

section \<open>The specification's notions\<close>

text \<open>Fragments joined by single spaces.\<close>

fun join_space :: "string list \<Rightarrow> string" where
  "join_space [] = []"
| "join_space [f] = f"
| "join_space (f # g # fs) = f @ '' '' @ join_space (g # fs)"

text \<open>The fragments of the final-flagged results, in the order of arrival.\<close>

definition finals :: "TranscriptionResult list \<Rightarrow> string list" where
  "finals rs = map TranscriptionResult.transcript (filter isFinal rs)"

text \<open>
  The decoder as the specification describes it, on the parsed frame: the kind of the
  frame, its first alternative when it has at least one, the transcript fragment of
  that alternative, the result built from it, and the message an error frame provides
  (\<^verbatim>\<open>Deepgram error\<close> when it provides none). On frames of the wire format the
  alternatives are an array and the fragment and the message are strings; the other
  cases say what JavaScript makes of a frame that is not of that format.
\<close>

definition frame_kind :: "json \<Rightarrow> jsval" where
  "frame_kind d = get d ''type''"

definition first_alternative :: "runtime \<Rightarrow> json \<Rightarrow> jsval" where
  "first_alternative rt d =
     (case read_opt (get d ''channel'') ''alternatives'' of
        Some (JArr (a # as)) \<Rightarrow> Some a
      | Some (JStr (c # cs)) \<Rightarrow> Some (JStr [c])
      | Some (JObj kvs) \<Rightarrow>
          (if gt_zero rt (map_of kvs ''length'') = Inr True then map_of kvs ''0'' else None)
      | _ \<Rightarrow> None)"

definition fragment :: "runtime \<Rightarrow> json \<Rightarrow> jsval" where
  "fragment rt d = read_opt (first_alternative rt d) ''transcript''"

definition decoded :: "runtime \<Rightarrow> json \<Rightarrow> decoded_result" where
  "decoded rt d =
     \<lparr>transcript_value = or_else (fragment rt d) (JStr ''''),
      isFinal_value = or_else (get d ''is_final'') (JBool False),
      confidence_value = or_else (read_opt (first_alternative rt d) ''confidence'') (JNum 0),
      words_value = read_opt (first_alternative rt d) ''words''\<rparr>"

definition provided_message :: "runtime \<Rightarrow> json \<Rightarrow> thrown + string" where
  "provided_message rt d =
     (case get d ''message'' of
        Some (JStr m) \<Rightarrow> Inr (if m = [] then ''Deepgram error'' else m)
      | Some w \<Rightarrow> if truthy (Some w) then ToString rt w else Inr ''Deepgram error''
      | None \<Rightarrow> Inr ''Deepgram error'')"

definition decoder_spec :: "runtime \<Rightarrow> string \<Rightarrow> decoded_result handler_call list" where
  "decoder_spec rt frame =
     (case JSON_parse rt frame of
        None \<Rightarrow> []
      | Some d \<Rightarrow>
          if frame_kind d = Some (JStr ''Results'') then
            (if truthy (fragment rt d) then [OnTranscript (decoded rt d)] else [])
          else if frame_kind d = Some (JStr ''Error'') then
            (case provided_message rt d of Inr m \<Rightarrow> [OnError m] | Inl e \<Rightarrow> [])
          else [])"






section \<open>A concrete platform and concrete sessions\<close>

text \<open>
  The concrete inputs of the instances below. The frame \<open>interim_frame\<close> is a
  "Results" frame whose only alternative has the transcript \<^verbatim>\<open>hel\<close> and nothing
  else: no \<^verbatim>\<open>is_final\<close>, no \<^verbatim>\<open>confidence\<close>. The platform grants the microphone,
  opens sockets without throwing, and parses four frame texts, here named for the
  value they parse to; every other text does not parse.
\<close>

definition interim_frame :: json where
  "interim_frame =
     JObj [(''type'', JStr ''Results''),
           (''channel'', JObj [(''alternatives'', JArr [JObj [(''transcript'', JStr ''hel'')]])])]"

definition example_parse :: "string \<Rightarrow> json option" where
  "example_parse frame =
     (if frame = ''interim'' then Some interim_frame
      else if frame = ''error'' then
        Some (JObj [(''type'', JStr ''Error''), (''message'', JStr ''boom'')])
      else if frame = ''bare error'' then Some (JObj [(''type'', JStr ''Error'')])
      else if frame = ''metadata'' then Some (JObj [(''type'', JStr ''Metadata'')])
      else None)"

definition example_runtime :: runtime where
  "example_runtime =
     \<lparr>JSON_parse = example_parse,
      ToNumber_gt0 = (\<lambda>v. Inr False),
      ToString = (\<lambda>v. Inr ''[object Object]''),
      WebSocket_throws = (\<lambda>req. None),
      has_mediaDevices = True,
      has_getUserMedia = True,
      getUserMedia = Inr 1,
      new_AudioContext = Inr 1,
      permissions_query = Inr granted,
      new_MediaRecorder_throws = False,
      MediaRecorder_start_throws = None\<rparr>"

definition interim_hel :: TranscriptionResult where
  "interim_hel =
     \<lparr>TranscriptionResult.transcript = ''hel'', isFinal = False, confidence = 0, words = None\<rparr>"

definition final_hello :: TranscriptionResult where
  "final_hello =
     \<lparr>TranscriptionResult.transcript = ''hello'', isFinal = True, confidence = 1, words = None\<rparr>"

definition final_world :: TranscriptionResult where
  "final_world =
     \<lparr>TranscriptionResult.transcript = ''world'', isFinal = True, confidence = 1, words = None\<rparr>"

text \<open>The hook after \<^verbatim>\<open>initialize\<close> has succeeded, with a key and without one.\<close>

definition ready_Session :: Session where
  "ready_Session = apiKey_effect ''dg-key'' (initialize example_runtime ''dg-key'' initial_Session)"


text \<open>
  The hook after \<^verbatim>\<open>startRecording\<close>, once the socket of its channel has opened.
\<close>

definition streaming_Session :: Session where
  "streaming_Session =
     channel_event example_runtime socket_opens
       (fst (startRecording example_runtime ''dg-key'' ready_Session))"

text \<open>
  A channel after \<^verbatim>\<open>connect\<close>, its connection still pending, and the same channel
  after the browser has opened its socket and run \<^verbatim>\<open>onopen\<close>.
\<close>

definition example_channel :: "unit DeepgramService" where
  "example_channel =
     fst (connect example_runtime () (createDeepgramService ''dg-key'')
            :: unit DeepgramService \<times> unit effect list)"

definition open_channel :: "unit DeepgramService" where
  "open_channel =
     fst (socket_opens example_channel :: unit DeepgramService \<times> unit effect list)"

text \<open>
  The hook after an interim result and an unexpected close of the socket: not
  recording, with the interim transcript still there.
\<close>

definition closed_Session :: Session where
  "closed_Session =
     channel_event example_runtime socket_closes
       (deliver example_runtime (OnTranscript interim_hel) streaming_Session)"

text \<open>
  An audio source after \<^verbatim>\<open>initialize\<close>, and two platforms for a second call: one
  grants the microphone again, with a new stream and a new context, and one refuses.
\<close>

definition initialized_audio :: "unit AudioCaptureService" where
  "initialized_audio = snd (AudioCaptureService_initialize example_runtime new_AudioCaptureService)"

definition second_grant :: runtime where
  "second_grant = example_runtime\<lparr>getUserMedia := Inr 2, new_AudioContext := Inr 2\<rparr>"

definition permission_revoked :: runtime where
  "permission_revoked =
     example_runtime\<lparr>getUserMedia := Inl (DOMException ''NotAllowedError'' ''Permission denied'')\<rparr>"


section \<open>Facts about the concrete inputs\<close>

lemma ready_Session_eq:
  "ready_Session =
     \<lparr>state = \<lparr>isRecording = False, isConnected = False, isInitialized = True,
                transcript = '''', interimTranscript = '''', error = None,
                permissionStatus = Some granted\<rparr>,
      audioServiceRef = Some \<lparr>mediaStream = Some 1, audioContext = Some 1, mediaRecorder = None,
                                audioChunks = [], onDataCallback = None\<rparr>,
      deepgramServiceRef = Some (createDeepgramService ''dg-key'')\<rparr>"
  by (simp add: ready_Session_def apiKey_effect_def initialize_def example_runtime_def
      initial_Session_def AudioCaptureService_initialize_def checkMediaDevicesSupport_def
      checkPermission_def new_AudioCaptureService_def)


lemma example_channel_eq:
  "example_channel =
     \<lparr>socket = Some \<lparr>request = ws_request_of
                                  (config (createDeepgramService ''dg-key'' :: unit DeepgramService)),
                      readyState = CONNECTING\<rparr>,
      config = config (createDeepgramService ''dg-key'' :: unit DeepgramService),
      handlers = Some (),
      isConnected = False\<rparr>"
  by (simp add: example_channel_def connect_def createDeepgramService_def example_runtime_def
      Let_def)

lemma open_channel_eq:
  "open_channel = example_channel
     \<lparr>socket := Some \<lparr>request = ws_request_of
                                  (config (createDeepgramService ''dg-key'' :: unit DeepgramService)),
                       readyState = OPEN\<rparr>,
      DeepgramService.isConnected := True\<rparr>"
  by (simp add: open_channel_def socket_opens_def socket_onopen_def example_channel_eq)

lemma recording_Session_eq:
  "fst (startRecording example_runtime ''dg-key'' ready_Session) =
     ready_Session\<lparr>deepgramServiceRef := Some example_channel\<rparr>"
  by (simp add: ready_Session_eq startRecording_def connect_def example_channel_eq
      createDeepgramService_def example_runtime_def Let_def)

lemma streaming_Session_channel:
  "deepgramServiceRef streaming_Session = Some open_channel"
  unfolding streaming_Session_def recording_Session_eq
  by (simp add: channel_event_def open_channel_eq
      socket_opens_def socket_onopen_def example_channel_eq ready_Session_eq onOpen_def
      AudioCaptureService_startRecording_def example_runtime_def Let_def)

lemma streaming_Session_state:
  "state streaming_Session =
     \<lparr>isRecording = True, isConnected = True, isInitialized = True,
      transcript = '''', interimTranscript = '''', error = None,
      permissionStatus = Some granted\<rparr>"
  unfolding streaming_Session_def recording_Session_eq
  by (simp add: channel_event_def
      socket_opens_def socket_onopen_def example_channel_eq ready_Session_eq onOpen_def
      AudioCaptureService_startRecording_def example_runtime_def Let_def)


section \<open>The accumulated transcript\<close>

lemma join_space_Cons:
  "join_space (f # fs) = (if fs = [] then f else f @ '' '' @ join_space fs)"
  by (cases fs) simp_all

text \<open>
  What a run of \<^verbatim>\<open>onTranscript\<close> calls leaves in the transcript, from any starting
  transcript: the induction needs the session generalised.
\<close>

lemma transcript_accumulates:
  assumes "\<forall>r \<in> set rs. isFinal r \<longrightarrow> TranscriptionResult.transcript r \<noteq> []"
  shows "transcript (state (deliver_all rt (map OnTranscript rs) sess)) =
         (if finals rs = [] then transcript (state sess)
          else if transcript (state sess) = [] then join_space (finals rs)
          else transcript (state sess) @ '' '' @ join_space (finals rs))"
  using assms
proof (induction rs arbitrary: sess)
  case Nil
  then show ?case by (simp add: finals_def)
next
  case (Cons r rs)
  have rest: "\<forall>r \<in> set rs. isFinal r \<longrightarrow> TranscriptionResult.transcript r \<noteq> []"
    using Cons.prems by simp
  show ?case
  proof (cases "isFinal r")
    case True
    then have ne: "TranscriptionResult.transcript r \<noteq> []"
      using Cons.prems by simp
    show ?thesis
      using True ne Cons.IH [OF rest, of "sess\<lparr>state := onTranscript r (state sess)\<rparr>"]
      by (simp add: finals_def onTranscript_def join_space_Cons)
  next
    case False
    then show ?thesis
      using Cons.IH [OF rest, of "sess\<lparr>state := onTranscript r (state sess)\<rparr>"]
      by (simp add: finals_def onTranscript_def)
  qed
qed

text \<open>
  Claim C1. Starting from an empty accumulated transcript, after any sequence of
  \<^verbatim>\<open>onTranscript\<close> events whose final-flagged results carry non-empty fragments, the
  accumulated transcript is those fragments, in the order of arrival, joined by
  single spaces; the interim results in between do not matter.
\<close>

theorem transcript_joins_finals:
  assumes "transcript (state sess) = []"
    and "\<forall>r \<in> set rs. isFinal r \<longrightarrow> TranscriptionResult.transcript r \<noteq> []"
  shows "transcript (state (deliver_all rt (map OnTranscript rs) sess)) = join_space (finals rs)"
  using transcript_accumulates [OF assms(2), of rt sess] assms(1)
  by (simp add: finals_def)

theorem transcript_joins_finals_witness:
  "transcript (state (deliver_all example_runtime
      (map OnTranscript [interim_hel, final_hello, interim_hel, final_world]) initial_Session))
   = ''hello world''"
proof -
  have empty: "transcript (state initial_Session) = []"
    by (simp add: initial_Session_def)
  have nonempty: "\<forall>r \<in> set [interim_hel, final_hello, interim_hel, final_world].
          isFinal r \<longrightarrow> TranscriptionResult.transcript r \<noteq> []"
    by (simp add: interim_hel_def final_hello_def final_world_def)
  show ?thesis
    using transcript_joins_finals [OF empty nonempty, of example_runtime]
    by (simp add: finals_def interim_hel_def final_hello_def final_world_def)
qed


section \<open>Starting without a credential\<close>





section \<open>The handlers of the hook\<close>

text \<open>
  Claim C3. An \<^verbatim>\<open>onTranscript\<close> event that is not final replaces the interim
  transcript by its fragment, whatever the interim transcript was, and leaves the
  accumulated transcript as it is; a final one empties the interim transcript.
\<close>

theorem onTranscript_interim_and_final:
  "(\<not> isFinal result \<longrightarrow>
      interimTranscript (onTranscript result prev) = TranscriptionResult.transcript result \<and>
      transcript (onTranscript result prev) = transcript prev) \<and>
   (isFinal result \<longrightarrow> interimTranscript (onTranscript result prev) = [])"
  by (simp add: onTranscript_def)

theorem onTranscript_interim_and_final_witness:
  "\<not> isFinal interim_hel \<and>
   interimTranscript
     (onTranscript interim_hel ((state streaming_Session)\<lparr>interimTranscript := ''he''\<rparr>))
     = ''hel'' \<and>
   transcript
     (onTranscript interim_hel ((state streaming_Session)\<lparr>interimTranscript := ''he''\<rparr>))
     = transcript (state streaming_Session) \<and>
   isFinal final_hello \<and>
   interimTranscript
     (onTranscript final_hello ((state streaming_Session)\<lparr>interimTranscript := ''hel''\<rparr>))
     = []"
  using onTranscript_interim_and_final
          [of interim_hel "(state streaming_Session)\<lparr>interimTranscript := ''he''\<rparr>"]
        onTranscript_interim_and_final
          [of final_hello "(state streaming_Session)\<lparr>interimTranscript := ''hel''\<rparr>"]
  by (simp add: interim_hel_def final_hello_def)

text \<open>
  Claim C4. Processing an \<^verbatim>\<open>onError\<close> event makes \<^verbatim>\<open>isRecording\<close> and
  \<^verbatim>\<open>isConnected\<close> false and sets the error to the message of the error; the
  accumulated transcript stays.
\<close>

theorem onError_faults:
  "isRecording (state (deliver rt (OnError msg) sess)) = False \<and>
   isConnected (state (deliver rt (OnError msg) sess)) = False \<and>
   error (state (deliver rt (OnError msg) sess)) = Some msg \<and>
   transcript (state (deliver rt (OnError msg) sess)) = transcript (state sess)"
  by (simp add: onError_def)

text \<open>
  Claim C5. Processing an \<^verbatim>\<open>onClose\<close> event in a state without error (streaming or
  not) makes \<^verbatim>\<open>isRecording\<close> and \<^verbatim>\<open>isConnected\<close> false and leaves the error null.
\<close>

theorem onClose_is_no_fault:
  assumes "error (state sess) = None"
  shows "isRecording (state (deliver rt OnClose sess)) = False \<and>
         isConnected (state (deliver rt OnClose sess)) = False \<and>
         error (state (deliver rt OnClose sess)) = None"
  using assms by (simp add: onClose_def)

theorem onClose_is_no_fault_witness:
  "isRecording (state streaming_Session) \<and> isConnected (state streaming_Session) \<and>
   error (state streaming_Session) = None \<and>
   isRecording (state (deliver example_runtime OnClose streaming_Session)) = False \<and>
   isConnected (state (deliver example_runtime OnClose streaming_Session)) = False \<and>
   error (state (deliver example_runtime OnClose streaming_Session)) = None"
proof -
  have h: "error (state streaming_Session) = None"
    by (simp add: streaming_Session_state)
  show ?thesis
    using onClose_is_no_fault [OF h, of example_runtime]
    by (simp add: streaming_Session_state)
qed


section \<open>The message decoder\<close>

text \<open>
  The two \<^verbatim>\<open>if\<close>s of \<^verbatim>\<open>handleMessage\<close>, case by case over the parsed frame, and then
  the decoder as a whole against \<open>decoder_spec\<close>.
\<close>

lemma truthy_or_else: "truthy (Some (or_else v (JStr ''''))) = truthy v"
  by (cases v) (auto simp: or_else_def)

lemma handle_results_other:
  "get d ''type'' \<noteq> Some (JStr ''Results'') \<Longrightarrow> d \<noteq> JNull \<Longrightarrow> handle_results rt this d = Inr []"
  by (cases d) (simp_all add: handle_results_def and_then_def read_prop_def)

lemma handle_error_other:
  "get d ''type'' \<noteq> Some (JStr ''Error'') \<Longrightarrow> d \<noteq> JNull \<Longrightarrow> handle_error rt this d = Inr []"
  by (cases d) (simp_all add: handle_error_def and_then_def read_prop_def)

lemma handle_null:
  "handle_results rt this JNull = Inl TypeError"
  by (simp add: handle_results_def and_then_def read_prop_def)

lemma read_prop_obj: "read_prop (Some (JObj kvs)) k = Inr (map_of kvs k)"
  by (simp add: read_prop_def)

lemma handle_error_Error:
  assumes "handlers this = Some h" "map_of kvs ''type'' = Some (JStr ''Error'')"
  shows "handle_error rt this (JObj kvs) =
         (case provided_message rt (JObj kvs) of Inr m \<Rightarrow> Inr [Invoke (OnError m)] | Inl e \<Rightarrow> Inl e)"
proof (cases "map_of kvs ''message''")
  case None
  then show ?thesis using assms
    by (simp add: handle_error_def and_then_def read_prop_obj provided_message_def
        or_else_def error_message_def)
next
  case (Some w)
  then show ?thesis using assms
    by (cases w)
       (simp_all add: handle_error_def and_then_def read_prop_obj provided_message_def
        or_else_def error_message_def)
qed

lemma handle_results_Results:
  assumes "handlers this = Some h" "map_of kvs ''type'' = Some (JStr ''Results'')"
  shows "case handle_results rt this (JObj kvs) of
           Inr es \<Rightarrow> es = (if truthy (fragment rt (JObj kvs))
                          then [Invoke (OnTranscript (decoded rt (JObj kvs)))] else [])
         | Inl e \<Rightarrow> \<not> truthy (fragment rt (JObj kvs))"
proof (cases "read_opt (map_of kvs ''channel'') ''alternatives''")
  case None
  then show ?thesis using assms
    by (simp add: handle_results_def and_then_def read_prop_obj read_opt_def gt_zero_def
        fragment_def first_alternative_def)
next
  case (Some av)
  then obtain c where c: "map_of kvs ''channel'' = Some c" "c \<noteq> JNull" "get c ''alternatives'' = Some av"
    by (auto simp: read_opt_def split: option.splits json.splits)
  then have rp: "read_prop (Some c) ''alternatives'' = Inr (Some av)"
    by (cases c) (simp_all add: read_prop_def)
  show ?thesis
  proof (cases av)
    case JNull
    then show ?thesis using assms Some c
      by (simp add: handle_results_def and_then_def read_prop_obj read_opt_def gt_zero_def
        fragment_def first_alternative_def)
  next
    case (JBool x2)
    then show ?thesis using assms Some c
      by (simp add: handle_results_def and_then_def read_prop_obj read_opt_def gt_zero_def
        fragment_def first_alternative_def)
  next
    case (JNum x3)
    then show ?thesis using assms Some c
      by (simp add: handle_results_def and_then_def read_prop_obj read_opt_def gt_zero_def
        fragment_def first_alternative_def)
  next
    case (JStr s)
    then show ?thesis using assms Some c rp
      by (cases s)
         (simp_all add: handle_results_def and_then_def read_prop_obj read_opt_def gt_zero_def
        fragment_def first_alternative_def read_prop_def truthy_or_else)
  next
    case (JArr xs)
    show ?thesis
    proof (cases xs)
      case Nil
      then show ?thesis using assms Some c rp JArr
        by (simp add: handle_results_def and_then_def read_prop_obj read_opt_def gt_zero_def
        fragment_def first_alternative_def)
    next
      case (Cons a as)
      then show ?thesis using assms Some c rp JArr
        by (cases a)
           (simp_all add: handle_results_def and_then_def read_prop_obj read_opt_def gt_zero_def
        fragment_def first_alternative_def read_prop_def decoded_def truthy_or_else)
    qed
  next
    case (JObj akvs)
    show ?thesis
    proof (cases "gt_zero rt (map_of akvs ''length'')")
      case (Inl e)
      then show ?thesis using assms Some c rp JObj
        by (simp add: handle_results_def and_then_def read_prop_obj read_opt_def
            fragment_def first_alternative_def)
    next
      case (Inr pos)
      show ?thesis
      proof (cases pos)
        case False
        then show ?thesis using assms Some c rp JObj Inr
          by (simp add: handle_results_def and_then_def read_prop_obj read_opt_def
            fragment_def first_alternative_def)
      next
        case True
        show ?thesis
        proof (cases "map_of akvs ''0''")
          case None
          then show ?thesis using assms Some c rp JObj Inr True
            by (simp add: handle_results_def and_then_def read_prop_obj read_opt_def
              fragment_def first_alternative_def read_prop_def)
        next
          case (Some a)
          then show ?thesis using assms \<open>read_opt (map_of kvs ''channel'') ''alternatives'' = Some av\<close> c rp JObj Inr True
            by (cases a)
               (simp_all add: handle_results_def and_then_def read_prop_obj read_opt_def
                fragment_def first_alternative_def read_prop_def decoded_def truthy_or_else)
        qed
      qed
    qed
  qed
qed


lemma handleMessage_calls:
  assumes "handlers this = Some h"
  shows "calls (handleMessage rt this frame) = decoder_spec rt frame"
proof (cases "JSON_parse rt frame")
  case None
  then show ?thesis by (simp add: handleMessage_def decoder_spec_def)
next
  case (Some d)
  show ?thesis
  proof (cases d)
    case (JObj kvs)
    consider (res) "map_of kvs ''type'' = Some (JStr ''Results'')"
      | (err) "map_of kvs ''type'' = Some (JStr ''Error'')"
      | (other) "map_of kvs ''type'' \<noteq> Some (JStr ''Results'')" "map_of kvs ''type'' \<noteq> Some (JStr ''Error'')"
      by blast
    then show ?thesis
    proof cases
      case res
      have e: "handle_error rt this (JObj kvs) = Inr []"
        using res by (intro handle_error_other) simp_all
      show ?thesis
        using handle_results_Results [OF assms res, of rt] res Some JObj e
        by (auto simp: handleMessage_def decoder_spec_def frame_kind_def split: sum.splits)
    next
      case err
      have r: "handle_results rt this (JObj kvs) = Inr []"
        using err by (intro handle_results_other) simp_all
      show ?thesis
        using handle_error_Error [OF assms err, of rt] err Some JObj r
        by (auto simp: handleMessage_def decoder_spec_def frame_kind_def split: sum.splits)
    next
      case other
      have "handle_results rt this (JObj kvs) = Inr []" "handle_error rt this (JObj kvs) = Inr []"
        using other by (simp_all add: handle_results_other handle_error_other)
      then show ?thesis using other Some JObj
        by (simp add: handleMessage_def decoder_spec_def frame_kind_def)
    qed
  next
    case JNull
    then show ?thesis using Some
      by (simp add: handleMessage_def decoder_spec_def frame_kind_def handle_null)
  next
    case (JBool b)
    then show ?thesis using Some
      by (simp add: handleMessage_def decoder_spec_def frame_kind_def
         handle_results_other handle_error_other)
  next
    case (JNum n)
    then show ?thesis using Some
      by (simp add: handleMessage_def decoder_spec_def frame_kind_def
         handle_results_other handle_error_other)
  next
    case (JStr n)
    then show ?thesis using Some
      by (simp add: handleMessage_def decoder_spec_def frame_kind_def
         handle_results_other handle_error_other)
  next
    case (JArr n)
    then show ?thesis using Some
      by (simp add: handleMessage_def decoder_spec_def frame_kind_def
         handle_results_other handle_error_other)
  qed
qed










section \<open>Connecting twice\<close>

lemma connect_registers_handlers:
  assumes "\<not> DeepgramService.isConnected this"
  shows "handlers (fst (connect rt h this :: 'h DeepgramService \<times> 'r effect list)) = Some h"
  using assms by (simp add: connect_def Let_def split: option.splits)





section \<open>Stopping and disconnecting when idle\<close>

lemma closed_Session_state:
  "state closed_Session =
     \<lparr>isRecording = False, isConnected = False, isInitialized = True,
      transcript = '''', interimTranscript = ''hel'', error = None,
      permissionStatus = Some granted\<rparr>"
  by (simp add: closed_Session_def channel_event_def streaming_Session_channel
      streaming_Session_state socket_closes_def socket_onclose_def open_channel_eq
      example_channel_eq onTranscript_def onClose_def interim_hel_def)

text \<open>
  Claim C7, as the code has it. \<^verbatim>\<open>stopRecording\<close> of the hook, called when not
  recording, leaves the state as it is except that \<^verbatim>\<open>isConnected\<close> is false and
  the interim transcript is empty (\<^verbatim>\<open>isRecording\<close> is false already): it always
  clears the interim transcript. \<^verbatim>\<open>disconnect\<close> of the channel, called when not
  connected, leaves the configuration, the handlers and the flag as they are and
  holds no socket afterwards: a socket still held is closed, after the
  \<^verbatim>\<open>CloseStream\<close> message if the browser reports it open, and dropped; with no
  socket held the call changes nothing and does nothing.
\<close>

theorem stop_and_disconnect_when_idle:
  "(\<not> isRecording (state sess) \<longrightarrow>
      state (fst (stopRecording sess)) =
        (state sess)\<lparr>isConnected := False, interimTranscript := ''''\<rparr>) \<and>
   (\<not> DeepgramService.isConnected this \<longrightarrow>
      (disconnect this :: 'h DeepgramService \<times> 'r effect list) =
        (this\<lparr>socket := None\<rparr>,
         case socket this of
           None \<Rightarrow> []
         | Some ws \<Rightarrow>
             (if readyState ws = OPEN
              then [SocketSend (JObj [(''type'', JStr ''CloseStream'')])] else [])
             @ [SocketClose])) \<and>
   (\<not> DeepgramService.isConnected this \<and> socket this = None \<longrightarrow>
      (disconnect this :: 'h DeepgramService \<times> 'r effect list) = (this, []))"
  by (auto simp: stopRecording_def disconnect_def Let_def split: option.splits prod.splits)

theorem stop_and_disconnect_when_idle_witness:
  "\<not> isRecording (state closed_Session) \<and>
   state (fst (stopRecording closed_Session)) =
     (state closed_Session)\<lparr>isConnected := False, interimTranscript := ''''\<rparr> \<and>
   \<not> DeepgramService.isConnected example_channel \<and>
   (disconnect example_channel :: unit DeepgramService \<times> unit effect list)
     = (example_channel\<lparr>socket := None\<rparr>, [SocketClose]) \<and>
   socket (createDeepgramService ''dg-key'' :: unit DeepgramService) = None \<and>
   (disconnect (createDeepgramService ''dg-key'') :: unit DeepgramService \<times> unit effect list)
     = (createDeepgramService ''dg-key'', [])"
  using stop_and_disconnect_when_idle
          [where 'r = unit and 'h = unit, of closed_Session example_channel]
        stop_and_disconnect_when_idle
          [where 'r = unit and 'h = unit, of closed_Session "createDeepgramService ''dg-key''"]
  by (simp add: closed_Session_state example_channel_eq createDeepgramService_def)

text \<open>
  The claim as written fails where an interim result was followed by a close: the
  hook is not recording, and \<^verbatim>\<open>stopRecording\<close> still changes the interim transcript.
\<close>

theorem stopRecording_idle_counterexample:
  "\<not> isRecording (state closed_Session) \<and>
   state (fst (stopRecording closed_Session)) \<noteq>
     (state closed_Session)\<lparr>isRecording := False, isConnected := False\<rparr>"
  by (simp add: stopRecording_def closed_Session_state Let_def split: prod.splits)


section \<open>Initializing the audio source again\<close>

lemma initialized_audio_eq:
  "initialized_audio =
     \<lparr>mediaStream = Some 1, audioContext = Some 1, mediaRecorder = None,
      audioChunks = [], onDataCallback = None\<rparr>"
  by (simp add: initialized_audio_def AudioCaptureService_initialize_def
      checkMediaDevicesSupport_def example_runtime_def new_AudioCaptureService_def)

text \<open>
  Claim C9, as the code has it. \<^verbatim>\<open>initialize\<close> has no guard for a service that is
  initialized already: on a platform with media devices it asks for the microphone
  again. When the request and the new audio context succeed, it returns true and the
  service holds the new stream and the new context in place of the old ones, the
  rest unchanged; when the request is refused, it rejects with the error that
  \<^verbatim>\<open>handlePermissionError\<close> makes of the refusal, and the service is unchanged.
\<close>

theorem initialize_again:
  assumes "checkMediaDevicesSupport rt = None"
  shows "(getUserMedia rt = Inr stream \<and> new_AudioContext rt = Inr ctx \<longrightarrow>
            AudioCaptureService_initialize rt this =
              (Inr True, this\<lparr>mediaStream := Some stream, audioContext := Some ctx\<rparr>)) \<and>
         (getUserMedia rt = Inl e \<longrightarrow>
            AudioCaptureService_initialize rt this = (Inl (handlePermissionError e), this))"
  using assms by (simp add: AudioCaptureService_initialize_def)

theorem initialize_again_witness:
  "mediaStream initialized_audio = Some 1 \<and>
   AudioCaptureService_initialize second_grant initialized_audio =
     (Inr True, initialized_audio\<lparr>mediaStream := Some 2, audioContext := Some 2\<rparr>) \<and>
   AudioCaptureService_initialize permission_revoked initialized_audio =
     (Inl (JsError ''Microphone permission denied. Please allow microphone access in your system settings.''),
      initialized_audio)"
proof -
  have s: "checkMediaDevicesSupport second_grant = None"
    by (simp add: checkMediaDevicesSupport_def second_grant_def example_runtime_def)
  have r: "checkMediaDevicesSupport permission_revoked = None"
    by (simp add: checkMediaDevicesSupport_def permission_revoked_def example_runtime_def)
  show ?thesis
    using initialize_again [OF s, of 2 2 initialized_audio]
          initialize_again [OF r, of _ _ initialized_audio "DOMException ''NotAllowedError'' ''Permission denied''"]
    by (simp add: second_grant_def permission_revoked_def example_runtime_def
        initialized_audio_eq handlePermissionError_def)
qed

text \<open>
  The claim as written fails on an initialized service: a second call that is granted
  replaces stream and context, and a second call that is refused does not return
  success.
\<close>

theorem initialize_again_counterexample:
  "mediaStream initialized_audio \<noteq> None \<and> audioContext initialized_audio \<noteq> None \<and>
   AudioCaptureService_initialize second_grant initialized_audio \<noteq> (Inr True, initialized_audio) \<and>
   fst (AudioCaptureService_initialize permission_revoked initialized_audio) \<noteq> Inr True"
  by (simp add: AudioCaptureService_initialize_def checkMediaDevicesSupport_def
      second_grant_def permission_revoked_def example_runtime_def initialized_audio_eq)


section \<open>Results without a finality flag\<close>

lemma decoder_spec_interim:
  assumes "JSON_parse rt frame = Some (JObj kvs)"
    and "map_of kvs ''type'' = Some (JStr ''Results'')"
    and "map_of kvs ''channel'' = Some (JObj ckvs)"
    and "map_of ckvs ''alternatives'' = Some (JArr (JObj akvs # alts))"
    and "map_of akvs ''transcript'' = Some (JStr t)" and "t \<noteq> []"
    and "map_of kvs ''is_final'' = None"
    and "map_of akvs ''confidence'' = map_option JNum conf"
  shows "decoder_spec rt frame =
         [OnTranscript
            \<lparr>transcript_value = JStr t, isFinal_value = JBool False,
             confidence_value = JNum (case conf of None \<Rightarrow> 0 | Some c \<Rightarrow> c),
             words_value = map_of akvs ''words''\<rparr>]"
proof -
  have alt: "first_alternative rt (JObj kvs) = Some (JObj akvs)"
    using assms(3,4) by (simp add: first_alternative_def read_opt_def)
  have frag: "fragment rt (JObj kvs) = Some (JStr t)"
    using alt assms(5) by (simp add: fragment_def read_opt_def)
  have conf: "or_else (map_option JNum conf) (JNum 0) = JNum (case conf of None \<Rightarrow> 0 | Some c \<Rightarrow> c)"
    by (cases conf) (simp_all add: or_else_def)
  show ?thesis
    using assms(1,2,6,7,8) alt frag conf
    by (simp add: decoder_spec_def frame_kind_def decoded_def or_else_def read_opt_def)
qed

text \<open>
  Claim C10. A frame of kind "Results" whose first alternative has a non-empty
  transcript, with no \<^verbatim>\<open>is_final\<close> field (and a confidence that is a number or
  absent), is decoded to one \<^verbatim>\<open>onTranscript\<close> call whose result has
  \<^verbatim>\<open>isFinal\<close> false and the confidence of the frame, 0 when the frame has none;
  the hook handles that call as an interim result: the interim transcript becomes
  the fragment, and the rest of the state, the accumulated transcript included, is
  unchanged.
\<close>

theorem results_without_is_final_are_interim:
  assumes "handlers this = Some h"
    and "JSON_parse rt frame = Some (JObj kvs)"
    and "map_of kvs ''type'' = Some (JStr ''Results'')"
    and "map_of kvs ''channel'' = Some (JObj ckvs)"
    and "map_of ckvs ''alternatives'' = Some (JArr (JObj akvs # alts))"
    and "map_of akvs ''transcript'' = Some (JStr t)" and "t \<noteq> []"
    and "map_of kvs ''is_final'' = None"
    and "map_of akvs ''confidence'' = map_option JNum conf"
  shows "map typed_call (calls (handleMessage rt this frame)) =
           [Some (OnTranscript
              \<lparr>TranscriptionResult.transcript = t, isFinal = False,
               confidence = (case conf of None \<Rightarrow> 0 | Some c \<Rightarrow> c),
               words = map_of akvs ''words''\<rparr>)]
       \<and> state (deliver rt
            (OnTranscript
              \<lparr>TranscriptionResult.transcript = t, isFinal = False,
               confidence = (case conf of None \<Rightarrow> 0 | Some c \<Rightarrow> c),
               words = map_of akvs ''words''\<rparr>) sess)
          = (state sess)\<lparr>interimTranscript := t\<rparr>"
proof -
  have "calls (handleMessage rt this frame) = decoder_spec rt frame"
    by (rule handleMessage_calls [OF assms(1)])
  then have "map typed_call (calls (handleMessage rt this frame)) =
           [Some (OnTranscript
              \<lparr>TranscriptionResult.transcript = t, isFinal = False,
               confidence = (case conf of None \<Rightarrow> 0 | Some c \<Rightarrow> c),
               words = map_of akvs ''words''\<rparr>)]"
    using decoder_spec_interim [OF assms(2-9)]
    by (simp add: as_TranscriptionResult_def)
  then show ?thesis by (simp add: onTranscript_def)
qed

theorem results_without_is_final_are_interim_witness:
  "map typed_call (calls (handleMessage example_runtime example_channel ''interim'')) =
     [Some (OnTranscript interim_hel)] \<and>
   state (deliver example_runtime (OnTranscript interim_hel)
            (deliver example_runtime (OnTranscript final_hello) streaming_Session))
     = (state streaming_Session)\<lparr>transcript := ''hello'', interimTranscript := ''hel''\<rparr>"
proof -
  have h: "handlers example_channel = Some ()"
    by (simp add: example_channel_eq)
  have p: "JSON_parse example_runtime ''interim'' =
             Some (JObj [(''type'', JStr ''Results''),
                         (''channel'', JObj [(''alternatives'', JArr [JObj [(''transcript'', JStr ''hel'')]])])])"
    by (simp add: example_runtime_def example_parse_def interim_frame_def)
  show ?thesis
    using results_without_is_final_are_interim
            [OF h p, of "[(''alternatives'', JArr [JObj [(''transcript'', JStr ''hel'')]])]"
               "[(''transcript'', JStr ''hel'')]" "[]" "''hel''" None
               "deliver example_runtime (OnTranscript final_hello) streaming_Session"]
    by (simp add: interim_hel_def final_hello_def onTranscript_def streaming_Session_state)
qed


end
